theory Spec2Isabelle
  imports Main "HOL-Library.Multiset" "HOL-Library.Sublist"
begin

section \<open>The record store of IdeaTracker (src/lib/storage.ts)\<close>

text \<open>
  The store is one JSON document kept under a single localStorage key. Every exported
  function of \<^verbatim>\<open>storage.ts\<close> reads the whole document with \<^verbatim>\<open>getStorageData\<close>,
  changes its own copy and writes it back with \<^verbatim>\<open>saveStorageData\<close>.

  Conventions of the embedding:
  \<^item> a TypeScript \<^verbatim>\<open>number\<close> holding an id, a counter, a severity or a score is an
    \<open>int\<close>: the value of an integer-valued double. The only arithmetic of the code is
    the \<^verbatim>\<open>++\<close> of \<^verbatim>\<open>getNextId\<close>, modelled by \<open>increment\<close> with the rounding of
    doubles, which is exact only between \<open>-2^53\<close> and \<open>2^53\<close>;
  \<^item> \<^verbatim>\<open>number | null\<close> is \<open>int option\<close>;
  \<^item> \<^verbatim>\<open>created_at\<close> and \<^verbatim>\<open>updated_at\<close> hold the text \<^verbatim>\<open>new Date().toISOString()\<close>
    of an instant and are only ever read back through \<^verbatim>\<open>new Date(s).getTime()\<close>; the
    model keeps the instant itself, in milliseconds, and every function that reads the
    clock takes the reading as its argument \<open>now\<close>;
  \<^item> record fields carry a prefix (\<open>p_\<close>, \<open>i_\<close>, \<open>n_\<close>, \<open>l_\<close>, \<open>c_\<close>) because the
    four interfaces of \<^verbatim>\<open>types.ts\<close> share field names;
  \<^item> \<^verbatim>\<open>JSON.parse (JSON.stringify d)\<close> is the identity on documents of this shape, so
    the stored text is modelled by the document it encodes, and \<^verbatim>\<open>localStorage.setItem\<close>
    is taken to succeed.
\<close>

subsection \<open>types.ts\<close>

type_synonym timestamp = int

datatype frequency = Rare | Weekly | Daily

datatype problem_status = Open | Solved | Ignored

datatype idea_status = New | Researching | Validating | Building | Parked

datatype note_type = Interview | Competitor | Pricing | Tech | General

record Problem =
  p_id :: int
  p_title :: string
  p_description :: string
  p_observed_context :: string
  p_severity :: int
  p_frequency :: frequency
  p_status :: problem_status
  p_tags :: string
  p_created_at :: timestamp
  p_updated_at :: timestamp

record Idea =
  i_id :: int
  i_title :: string
  i_pitch :: string
  i_target_user :: string
  i_value_prop :: string
  i_differentiation :: string
  i_assumptions :: string
  i_risks :: string
  i_status :: idea_status
  i_score :: "int option"
  i_tags :: string
  i_created_at :: timestamp
  i_updated_at :: timestamp

record Note =
  n_id :: int
  n_note_type :: note_type
  n_content :: string
  n_links :: string
  n_problem_id :: "int option"
  n_idea_id :: "int option"
  n_created_at :: timestamp

record ProblemIdeaLink =
  l_id :: int
  l_problem_id :: int
  l_idea_id :: int

record Counters =
  c_problems :: int
  c_ideas :: int
  c_notes :: int
  c_links :: int

record StorageData =
  problems :: "Problem list"
  ideas :: "Idea list"
  "notes" :: "Note list"
  links :: "ProblemIdeaLink list"
  counters :: Counters

subsection \<open>The execution context\<close>

text \<open>
  \<open>window\<close> tells whether \<^verbatim>\<open>typeof window\<close> differs from \<^verbatim>\<open>'undefined'\<close> (the code runs
  in a browser); \<open>localStorage\<close> is what \<^verbatim>\<open>localStorage.getItem(STORAGE_KEY)\<close> gives:
  \<open>None\<close> when the key was never written. Without a window there is no store: every
  read gives the empty document and every write is skipped. A store state is a context
  with a window.
\<close>

record env =
  window :: bool
  localStorage :: "StorageData option"

definition initial :: StorageData where
  "initial = \<lparr>problems = [], ideas = [], notes = [], links = [],
     counters = \<lparr>c_problems = 0, c_ideas = 0, c_notes = 0, c_links = 0\<rparr>\<rparr>"

definition getStorageData :: "env \<Rightarrow> StorageData \<times> env" where
  "getStorageData e =
     (if \<not> window e then (initial, e)
      else case localStorage e of
             None \<Rightarrow> (initial, e\<lparr>localStorage := Some initial\<rparr>)
           | Some stored \<Rightarrow> (stored, e))"

definition saveStorageData :: "StorageData \<Rightarrow> env \<Rightarrow> env" where
  "saveStorageData data e =
     (if \<not> window e then e else e\<lparr>localStorage := Some data\<rparr>)"

datatype counter_key = K_problems | K_ideas | K_notes | K_links

fun counter :: "counter_key \<Rightarrow> Counters \<Rightarrow> int" where
  "counter K_problems c = c_problems c"
| "counter K_ideas c = c_ideas c"
| "counter K_notes c = c_notes c"
| "counter K_links c = c_links c"

text \<open>
  \<^verbatim>\<open>c++\<close> on a double that holds the integer \<open>c\<close>: the sum \<open>c + 1\<close> rounded to the
  nearest double, ties to the even mantissa. From \<open>-2^53\<close> up to \<open>2^53 - 1\<close> the sum
  is a double itself. Beyond, up to \<open>2^54\<close> in size, the doubles are the even integers
  and \<open>c + 1\<close> lies halfway between \<open>c\<close> and \<open>c + 2\<close>: the one divisible by four
  wins, so \<open>2^53\<close> stays \<open>2^53\<close>. Further out the doubles are at least four apart
  and the sum rounds back to \<open>c\<close>.
\<close>

definition increment :: "int \<Rightarrow> int" where
  "increment c =
     (if - (2 ^ 53) \<le> c \<and> c < 2 ^ 53 then c + 1
      else if - (2 ^ 54) < c \<and> c < 2 ^ 54 then (if c mod 4 = 0 then c else c + 2)
      else c)"

fun counter_incr :: "counter_key \<Rightarrow> Counters \<Rightarrow> Counters" where
  "counter_incr K_problems c = c\<lparr>c_problems := increment (c_problems c)\<rparr>"
| "counter_incr K_ideas c = c\<lparr>c_ideas := increment (c_ideas c)\<rparr>"
| "counter_incr K_notes c = c\<lparr>c_notes := increment (c_notes c)\<rparr>"
| "counter_incr K_links c = c\<lparr>c_links := increment (c_links c)\<rparr>"

text \<open>\<^verbatim>\<open>getNextId\<close> changes \<^verbatim>\<open>data.counters\<close> in place and returns the new value.\<close>

definition getNextId :: "StorageData \<Rightarrow> counter_key \<Rightarrow> int \<times> StorageData" where
  "getNextId data type =
     (let data' = data\<lparr>counters := counter_incr type (counters data)\<rparr>
      in (counter type (counters data'), data'))"

subsection \<open>Array methods\<close>

text \<open>\<^verbatim>\<open>Array.prototype.findIndex\<close>: the first position that satisfies the test
  (\<open>None\<close> for \<^verbatim>\<open>-1\<close>).\<close>

fun findIndex :: "('a \<Rightarrow> bool) \<Rightarrow> 'a list \<Rightarrow> nat option" where
  "findIndex P [] = None"
| "findIndex P (x # xs) =
     (if P x then Some 0 else map_option Suc (findIndex P xs))"



subsection \<open>Problems\<close>

definition createProblem ::
  "string \<Rightarrow> string \<Rightarrow> string \<Rightarrow> int \<Rightarrow> frequency \<Rightarrow> problem_status \<Rightarrow> string \<Rightarrow>
   timestamp \<Rightarrow> env \<Rightarrow> int \<times> env" where
  "createProblem title description observed_context severity frequency status tags now e =
     (let (data, e1) = getStorageData e;
          (new_id, data1) = getNextId data K_problems;
          problem = \<lparr>p_id = new_id, p_title = title, p_description = description,
                     p_observed_context = observed_context, p_severity = severity,
                     p_frequency = frequency, p_status = status, p_tags = tags,
                     p_created_at = now, p_updated_at = now\<rparr>;
          data2 = data1\<lparr>problems := problems data1 @ [problem]\<rparr>
      in (new_id, saveStorageData data2 e1))"


definition getProblemById :: "int \<Rightarrow> env \<Rightarrow> Problem option \<times> env" where
  "getProblemById pid e =
     (let (data, e1) = getStorageData e
      in (find (\<lambda>p. p_id p = pid) (problems data), e1))"

definition updateProblem ::
  "int \<Rightarrow> string \<Rightarrow> string \<Rightarrow> string \<Rightarrow> int \<Rightarrow> frequency \<Rightarrow> problem_status \<Rightarrow> string \<Rightarrow>
   timestamp \<Rightarrow> env \<Rightarrow> bool \<times> env" where
  "updateProblem pid title description observed_context severity frequency status tags now e =
     (let (data, e1) = getStorageData e
      in case findIndex (\<lambda>p. p_id p = pid) (problems data) of
           None \<Rightarrow> (False, e1)
         | Some index \<Rightarrow>
             (let data1 = data\<lparr>problems := (problems data)[index :=
                    (problems data ! index)\<lparr>p_title := title, p_description := description,
                       p_observed_context := observed_context, p_severity := severity,
                       p_frequency := frequency, p_status := status, p_tags := tags,
                       p_updated_at := now\<rparr>]\<rparr>
              in (True, saveStorageData data1 e1)))"

definition deleteProblem :: "int \<Rightarrow> env \<Rightarrow> bool \<times> env" where
  "deleteProblem pid e =
     (let (data, e1) = getStorageData e;
          originalLen = length (problems data);
          data1 = data\<lparr>problems := filter (\<lambda>p. p_id p \<noteq> pid) (problems data)\<rparr>
      in if length (problems data1) < originalLen then
           (let data2 = data1\<lparr>links := filter (\<lambda>l. l_problem_id l \<noteq> pid) (links data1)\<rparr>;
                data3 = data2\<lparr>notes := map (\<lambda>n. if n_problem_id n = Some pid
                                                 then n\<lparr>n_problem_id := None\<rparr> else n)
                                          (notes data2)\<rparr>
            in (True, saveStorageData data3 e1))
         else (False, e1))"

subsection \<open>Ideas\<close>

definition createIdea ::
  "string \<Rightarrow> string \<Rightarrow> string \<Rightarrow> string \<Rightarrow> string \<Rightarrow> string \<Rightarrow> string \<Rightarrow> idea_status \<Rightarrow>
   int option \<Rightarrow> string \<Rightarrow> timestamp \<Rightarrow> env \<Rightarrow> int \<times> env" where
  "createIdea title pitch target_user value_prop differentiation assumptions risks status
     score tags now e =
     (let (data, e1) = getStorageData e;
          (new_id, data1) = getNextId data K_ideas;
          idea = \<lparr>i_id = new_id, i_title = title, i_pitch = pitch,
                  i_target_user = target_user, i_value_prop = value_prop,
                  i_differentiation = differentiation, i_assumptions = assumptions,
                  i_risks = risks, i_status = status, i_score = score, i_tags = tags,
                  i_created_at = now, i_updated_at = now\<rparr>;
          data2 = data1\<lparr>ideas := ideas data1 @ [idea]\<rparr>
      in (new_id, saveStorageData data2 e1))"


definition getIdeaById :: "int \<Rightarrow> env \<Rightarrow> Idea option \<times> env" where
  "getIdeaById iid e =
     (let (data, e1) = getStorageData e
      in (find (\<lambda>i. i_id i = iid) (ideas data), e1))"

definition updateIdea ::
  "int \<Rightarrow> string \<Rightarrow> string \<Rightarrow> string \<Rightarrow> string \<Rightarrow> string \<Rightarrow> string \<Rightarrow> string \<Rightarrow>
   idea_status \<Rightarrow> int option \<Rightarrow> string \<Rightarrow> timestamp \<Rightarrow> env \<Rightarrow> bool \<times> env" where
  "updateIdea iid title pitch target_user value_prop differentiation assumptions risks status
     score tags now e =
     (let (data, e1) = getStorageData e
      in case findIndex (\<lambda>i. i_id i = iid) (ideas data) of
           None \<Rightarrow> (False, e1)
         | Some index \<Rightarrow>
             (let data1 = data\<lparr>ideas := (ideas data)[index :=
                    (ideas data ! index)\<lparr>i_title := title, i_pitch := pitch,
                       i_target_user := target_user, i_value_prop := value_prop,
                       i_differentiation := differentiation, i_assumptions := assumptions,
                       i_risks := risks, i_status := status, i_score := score,
                       i_tags := tags, i_updated_at := now\<rparr>]\<rparr>
              in (True, saveStorageData data1 e1)))"

definition deleteIdea :: "int \<Rightarrow> env \<Rightarrow> bool \<times> env" where
  "deleteIdea iid e =
     (let (data, e1) = getStorageData e;
          originalLen = length (ideas data);
          data1 = data\<lparr>ideas := filter (\<lambda>i. i_id i \<noteq> iid) (ideas data)\<rparr>
      in if length (ideas data1) < originalLen then
           (let data2 = data1\<lparr>links := filter (\<lambda>l. l_idea_id l \<noteq> iid) (links data1)\<rparr>;
                data3 = data2\<lparr>notes := map (\<lambda>n. if n_idea_id n = Some iid
                                                 then n\<lparr>n_idea_id := None\<rparr> else n)
                                          (notes data2)\<rparr>
            in (True, saveStorageData data3 e1))
         else (False, e1))"

subsection \<open>Problem-idea links\<close>

definition linkProblemToIdea :: "int \<Rightarrow> int \<Rightarrow> env \<Rightarrow> bool \<times> env" where
  "linkProblemToIdea problem_id idea_id e =
     (let (data, e1) = getStorageData e
      in if list_ex (\<lambda>l. l_problem_id l = problem_id \<and> l_idea_id l = idea_id) (links data)
         then (False, e1)
         else (let (new_id, data1) = getNextId data K_links;
                   data2 = data1\<lparr>links := links data1 @
                      [\<lparr>l_id = new_id, l_problem_id = problem_id, l_idea_id = idea_id\<rparr>]\<rparr>
               in (True, saveStorageData data2 e1)))"

definition unlinkProblemFromIdea :: "int \<Rightarrow> int \<Rightarrow> env \<Rightarrow> bool \<times> env" where
  "unlinkProblemFromIdea problem_id idea_id e =
     (let (data, e1) = getStorageData e;
          originalLen = length (links data);
          data1 = data\<lparr>links := filter
                    (\<lambda>l. \<not> (l_problem_id l = problem_id \<and> l_idea_id l = idea_id)) (links data)\<rparr>
      in if length (links data1) < originalLen then (True, saveStorageData data1 e1)
         else (False, e1))"

definition getIdeasForProblem :: "int \<Rightarrow> env \<Rightarrow> Idea list \<times> env" where
  "getIdeasForProblem problem_id e =
     (let (data, e1) = getStorageData e;
          ideaIds = map l_idea_id (filter (\<lambda>l. l_problem_id l = problem_id) (links data))
      in (filter (\<lambda>i. i_id i \<in> set ideaIds) (ideas data), e1))"

definition getProblemsForIdea :: "int \<Rightarrow> env \<Rightarrow> Problem list \<times> env" where
  "getProblemsForIdea idea_id e =
     (let (data, e1) = getStorageData e;
          problemIds = map l_problem_id (filter (\<lambda>l. l_idea_id l = idea_id) (links data))
      in (filter (\<lambda>p. p_id p \<in> set problemIds) (problems data), e1))"


text \<open>The body of the \<^verbatim>\<open>forEach\<close> of \<^verbatim>\<open>setProblemLinksForIdea\<close>.\<close>

definition addLink :: "int \<Rightarrow> int \<Rightarrow> StorageData \<Rightarrow> StorageData" where
  "addLink idea_id problem_id data =
     (let (new_id, data1) = getNextId data K_links
      in data1\<lparr>links := links data1 @
           [\<lparr>l_id = new_id, l_problem_id = problem_id, l_idea_id = idea_id\<rparr>]\<rparr>)"

definition setProblemLinksForIdea :: "int \<Rightarrow> int list \<Rightarrow> env \<Rightarrow> env" where
  "setProblemLinksForIdea idea_id problem_ids e =
     (let (data, e1) = getStorageData e;
          data1 = data\<lparr>links := filter (\<lambda>l. l_idea_id l \<noteq> idea_id) (links data)\<rparr>;
          data2 = fold (addLink idea_id) problem_ids data1
      in saveStorageData data2 e1)"

subsection \<open>Notes\<close>

definition createNote ::
  "note_type \<Rightarrow> string \<Rightarrow> string \<Rightarrow> int option \<Rightarrow> int option \<Rightarrow> timestamp \<Rightarrow> env \<Rightarrow>
   int \<times> env" where
  "createNote note_type content links_text problem_id idea_id now e =
     (let (data, e1) = getStorageData e;
          (new_id, data1) = getNextId data K_notes;
          note = \<lparr>n_id = new_id, n_note_type = note_type, n_content = content,
                  n_links = links_text, n_problem_id = problem_id, n_idea_id = idea_id,
                  n_created_at = now\<rparr>;
          data2 = data1\<lparr>notes := notes data1 @ [note]\<rparr>
      in (new_id, saveStorageData data2 e1))"


definition getNoteById :: "int \<Rightarrow> env \<Rightarrow> Note option \<times> env" where
  "getNoteById nid e =
     (let (data, e1) = getStorageData e
      in (find (\<lambda>n. n_id n = nid) (notes data), e1))"

definition updateNote ::
  "int \<Rightarrow> note_type \<Rightarrow> string \<Rightarrow> string \<Rightarrow> int option \<Rightarrow> int option \<Rightarrow> env \<Rightarrow>
   bool \<times> env" where
  "updateNote nid note_type content links_text problem_id idea_id e =
     (let (data, e1) = getStorageData e
      in case findIndex (\<lambda>n. n_id n = nid) (notes data) of
           None \<Rightarrow> (False, e1)
         | Some index \<Rightarrow>
             (let data1 = data\<lparr>notes := (notes data)[index :=
                    (notes data ! index)\<lparr>n_note_type := note_type, n_content := content,
                       n_links := links_text, n_problem_id := problem_id,
                       n_idea_id := idea_id\<rparr>]\<rparr>
              in (True, saveStorageData data1 e1)))"

definition deleteNote :: "int \<Rightarrow> env \<Rightarrow> bool \<times> env" where
  "deleteNote nid e =
     (let (data, e1) = getStorageData e;
          originalLen = length (notes data);
          data1 = data\<lparr>notes := filter (\<lambda>n. n_id n \<noteq> nid) (notes data)\<rparr>
      in if length (notes data1) < originalLen then (True, saveStorageData data1 e1)
         else (False, e1))"

subsection \<open>Data management\<close>

definition exportAllData :: "env \<Rightarrow> StorageData \<times> env" where
  "exportAllData e = getStorageData e"

text \<open>The \<^verbatim>\<open>catch\<close> branch of \<^verbatim>\<open>importAllData\<close> is reached only when the write throws,
  which the model of \<open>saveStorageData\<close> never does.\<close>

definition importAllData :: "StorageData \<Rightarrow> env \<Rightarrow> bool \<times> env" where
  "importAllData data e = (True, saveStorageData data e)"

definition clearAllData :: "env \<Rightarrow> env" where
  "clearAllData e = saveStorageData initial e"

subsection \<open>What a reader of the store sees\<close>

text \<open>The document of a context is what the next \<^verbatim>\<open>getStorageData\<close> returns.\<close>

definition document :: "env \<Rightarrow> StorageData" where
  "document e = fst (getStorageData e)"

definition empty_store :: env where
  "empty_store = \<lparr>window = True, localStorage = None\<rparr>"

subsection \<open>Sequences of calls\<close>

text \<open>A call of one of the entry points that write the store, with its arguments (and
  the clock reading where the function takes one).\<close>

datatype op =
    CreateProblem string string string int frequency problem_status string timestamp
  | CreateIdea string string string string string string string idea_status "int option"
      string timestamp
  | CreateNote note_type string string "int option" "int option" timestamp
  | UpdateProblem int string string string int frequency problem_status string timestamp
  | UpdateIdea int string string string string string string string idea_status
      "int option" string timestamp
  | UpdateNote int note_type string string "int option" "int option"
  | DeleteProblem int
  | DeleteIdea int
  | DeleteNote int
  | LinkProblemToIdea int int
  | UnlinkProblemFromIdea int int
  | SetProblemLinksForIdea int "int list"
  | ImportAllData StorageData
  | ClearAllData

datatype result = R_number int | R_boolean bool | R_void

fun exec :: "op \<Rightarrow> env \<Rightarrow> result \<times> env" where
  "exec (CreateProblem t d c s f st tg now) e =
     (let (r, e') = createProblem t d c s f st tg now e in (R_number r, e'))"
| "exec (CreateIdea t p u v d a r st sc tg now) e =
     (let (r, e') = createIdea t p u v d a r st sc tg now e in (R_number r, e'))"
| "exec (CreateNote ty c l p i now) e =
     (let (r, e') = createNote ty c l p i now e in (R_number r, e'))"
| "exec (UpdateProblem k t d c s f st tg now) e =
     (let (r, e') = updateProblem k t d c s f st tg now e in (R_boolean r, e'))"
| "exec (UpdateIdea k t p u v d a r st sc tg now) e =
     (let (r, e') = updateIdea k t p u v d a r st sc tg now e in (R_boolean r, e'))"
| "exec (UpdateNote k ty c l p i) e =
     (let (r, e') = updateNote k ty c l p i e in (R_boolean r, e'))"
| "exec (DeleteProblem k) e = (let (r, e') = deleteProblem k e in (R_boolean r, e'))"
| "exec (DeleteIdea k) e = (let (r, e') = deleteIdea k e in (R_boolean r, e'))"
| "exec (DeleteNote k) e = (let (r, e') = deleteNote k e in (R_boolean r, e'))"
| "exec (LinkProblemToIdea p i) e =
     (let (r, e') = linkProblemToIdea p i e in (R_boolean r, e'))"
| "exec (UnlinkProblemFromIdea p i) e =
     (let (r, e') = unlinkProblemFromIdea p i e in (R_boolean r, e'))"
| "exec (SetProblemLinksForIdea i ps) e = (R_void, setProblemLinksForIdea i ps e)"
| "exec (ImportAllData d) e = (let (r, e') = importAllData d e in (R_boolean r, e'))"
| "exec ClearAllData e = (R_void, clearAllData e)"

fun run :: "op list \<Rightarrow> env \<Rightarrow> env" where
  "run [] e = e"
| "run (x # xs) e = run xs (snd (exec x e))"

text \<open>The calls that overwrite the counters instead of counting on.\<close>

fun resets :: "op \<Rightarrow> bool" where
  "resets (ImportAllData d) = True"
| "resets ClearAllData = True"
| "resets _ = False"

text \<open>
  The ids one call mints in a collection: the number a create call returns, the id of
  the link \<^verbatim>\<open>linkProblemToIdea\<close> appends when it returns true, and the ids of the links
  \<^verbatim>\<open>setProblemLinksForIdea\<close> leaves for its idea (all of them were made by the call,
  the older ones having been filtered out first).
\<close>

fun minted :: "counter_key \<Rightarrow> op \<Rightarrow> env \<Rightarrow> int list" where
  "minted k (CreateProblem t d c s f st tg now) e =
     (if k = K_problems then [fst (createProblem t d c s f st tg now e)] else [])"
| "minted k (CreateIdea t p u v d a r st sc tg now) e =
     (if k = K_ideas then [fst (createIdea t p u v d a r st sc tg now e)] else [])"
| "minted k (CreateNote ty c l p i now) e =
     (if k = K_notes then [fst (createNote ty c l p i now e)] else [])"
| "minted k (LinkProblemToIdea p i) e =
     (if k = K_links \<and> fst (linkProblemToIdea p i e)
      then [l_id (last (links (document (snd (linkProblemToIdea p i e)))))] else [])"
| "minted k (SetProblemLinksForIdea i ps) e =
     (if k = K_links
      then map l_id (filter (\<lambda>l. l_idea_id l = i)
             (links (document (setProblemLinksForIdea i ps e))))
      else [])"
| "minted k _ e = []"

fun minted_by_run :: "counter_key \<Rightarrow> op list \<Rightarrow> env \<Rightarrow> int list" where
  "minted_by_run k [] e = []"
| "minted_by_run k (x # xs) e = minted k x e @ minted_by_run k xs (snd (exec x e))"

subsection \<open>Invariants of the link table\<close>

definition link_pair :: "ProblemIdeaLink \<Rightarrow> int \<times> int" where
  "link_pair l = (l_problem_id l, l_idea_id l)"

definition no_duplicate_links :: "StorageData \<Rightarrow> bool" where
  "no_duplicate_links d = distinct (map link_pair (links d))"

definition problem_exists :: "StorageData \<Rightarrow> int \<Rightarrow> bool" where
  "problem_exists d k = list_ex (\<lambda>p. p_id p = k) (problems d)"

definition idea_exists :: "StorageData \<Rightarrow> int \<Rightarrow> bool" where
  "idea_exists d k = list_ex (\<lambda>i. i_id i = k) (ideas d)"

definition links_reference_records :: "StorageData \<Rightarrow> bool" where
  "links_reference_records d =
     list_all (\<lambda>l. problem_exists d (l_problem_id l) \<and> idea_exists d (l_idea_id l)) (links d)"

text \<open>
  The obligation the link functions leave to their caller: the ids passed to
  \<^verbatim>\<open>linkProblemToIdea\<close> and \<^verbatim>\<open>setProblemLinksForIdea\<close> are ids of records in the
  store, and an imported document has no dangling link.
\<close>

fun caller_passes_existing_ids :: "op \<Rightarrow> StorageData \<Rightarrow> bool" where
  "caller_passes_existing_ids (LinkProblemToIdea p i) d =
     (problem_exists d p \<and> idea_exists d i)"
| "caller_passes_existing_ids (SetProblemLinksForIdea i ps) d =
     (list_all (problem_exists d) ps \<and> (ps = [] \<or> idea_exists d i))"
| "caller_passes_existing_ids (ImportAllData d') d = links_reference_records d'"
| "caller_passes_existing_ids _ d = True"

fun callers_pass_existing_ids :: "op list \<Rightarrow> env \<Rightarrow> bool" where
  "callers_pass_existing_ids [] e = True"
| "callers_pass_existing_ids (x # xs) e =
     (caller_passes_existing_ids x (document e)
      \<and> callers_pass_existing_ids xs (snd (exec x e)))"

subsection \<open>The links a replacement makes\<close>

text \<open>
  The links that the loop of \<^verbatim>\<open>setProblemLinksForIdea\<close> appends for the list
  \<open>problem_ids\<close> when the links counter stands at \<open>c\<close>: one for each element, in order,
  each with the value the counter takes when it is incremented once more.
\<close>

fun fresh_links :: "int \<Rightarrow> int \<Rightarrow> int list \<Rightarrow> ProblemIdeaLink list" where
  "fresh_links idea_id c [] = []"
| "fresh_links idea_id c (p # ps) =
     \<lparr>l_id = increment c, l_problem_id = p, l_idea_id = idea_id\<rparr>
       # fresh_links idea_id (increment c) ps"

subsection \<open>Sample stores\<close>

text \<open>
  The store of the cascade scenario: a problem, two ideas linked to it and a note that
  refers to the problem, all made through the entry points from the empty store.
\<close>

definition cascade_scenario :: env where
  "cascade_scenario = run
     [CreateProblem ''Slow onboarding'' [] [] 4 Weekly Open [] 1000,
      CreateIdea ''Guided setup wizard'' [] [] [] [] [] [] New None [] 2000,
      CreateIdea ''Onboarding checklist'' [] [] [] [] [] [] New None [] 3000,
      LinkProblemToIdea 1 1,
      LinkProblemToIdea 1 2,
      CreateNote Interview ''Users drop out at step 3'' [] (Some 1) None 4000]
     empty_store"

text \<open>A store with one problem and one idea, and the same store after the idea's links
  were replaced by a list that names the problem twice.\<close>

definition one_problem_one_idea :: env where
  "one_problem_one_idea = run
     [CreateProblem ''Slow onboarding'' [] [] 4 Weekly Open [] 1000,
      CreateIdea ''Guided setup wizard'' [] [] [] [] [] [] New None [] 2000]
     empty_store"

definition duplicate_links_scenario :: env where
  "duplicate_links_scenario = setProblemLinksForIdea 1 [1, 1] one_problem_one_idea"


text \<open>A create, a clear and another create.\<close>

definition create_clear_create :: "op list" where
  "create_clear_create =
     [CreateProblem ''A'' [] [] 3 Weekly Open [] 1000,
      ClearAllData,
      CreateProblem ''B'' [] [] 3 Weekly Open [] 2000]"

text \<open>Creates of problems with a delete in between.\<close>

definition create_delete_create :: "op list" where
  "create_delete_create =
     [CreateProblem ''A'' [] [] 3 Weekly Open [] 1000,
      CreateProblem ''B'' [] [] 3 Weekly Open [] 2000,
      DeleteProblem 2,
      CreateProblem ''C'' [] [] 3 Weekly Open [] 3000]"

text \<open>Links made between records of the store, followed by the deletion of one of the
  linked ideas.\<close>

definition link_existing_records :: "op list" where
  "link_existing_records =
     [CreateProblem ''Slow onboarding'' [] [] 4 Weekly Open [] 1000,
      CreateIdea ''Guided setup wizard'' [] [] [] [] [] [] New None [] 2000,
      LinkProblemToIdea 1 1,
      CreateIdea ''Onboarding checklist'' [] [] [] [] [] [] New None [] 3000,
      SetProblemLinksForIdea 2 [1],
      DeleteIdea 1]"

text \<open>
  A store whose links counter stands at \<open>2^53 - 1\<close>, as \<^verbatim>\<open>importAllData\<close> leaves it
  when the document it is given says so, and the same store after a first link has
  taken the id \<open>2^53\<close>.
\<close>

definition links_counter_near_limit :: env where
  "links_counter_near_limit = snd (importAllData
     (initial\<lparr>counters := \<lparr>c_problems = 0, c_ideas = 0, c_notes = 0, c_links = 2 ^ 53 - 1\<rparr>\<rparr>)
     empty_store)"

definition links_counter_at_limit :: env where
  "links_counter_at_limit = snd (linkProblemToIdea 1 1 links_counter_near_limit)"

text \<open>Four creates after the import of a document whose problems counter stands at
  \<open>2^53 - 2\<close>.\<close>

definition creates_near_limit :: "op list" where
  "creates_near_limit =
     [ImportAllData
        (initial\<lparr>counters := \<lparr>c_problems = 2 ^ 53 - 2, c_ideas = 0, c_notes = 0, c_links = 0\<rparr>\<rparr>),
      CreateProblem ''A'' [] [] 3 Weekly Open [] 1000,
      CreateProblem ''B'' [] [] 3 Weekly Open [] 2000,
      CreateProblem ''C'' [] [] 3 Weekly Open [] 3000,
      CreateProblem ''D'' [] [] 3 Weekly Open [] 4000]"

section \<open>Basic facts about reading and writing\<close>

lemma document_save: "window e \<Longrightarrow> document (saveStorageData d e) = d"
  by (simp add: document_def getStorageData_def saveStorageData_def)

lemma window_save: "window (saveStorageData d e) = window e"
  by (simp add: saveStorageData_def)

lemma window_get: "window (snd (getStorageData e)) = window e"
  by (simp add: getStorageData_def split: option.splits)

lemma document_get: "document (snd (getStorageData e)) = document e"
  by (simp add: document_def getStorageData_def split: option.splits)

lemma document_empty_store: "document empty_store = initial"
  by (simp add: document_def getStorageData_def empty_store_def)

section \<open>Incrementing a counter\<close>

lemma increment_exact: "- (2 ^ 53) \<le> c \<Longrightarrow> c < 2 ^ 53 \<Longrightarrow> increment c = c + 1"
  by (simp add: increment_def)

lemma increment_ge: "c \<le> increment c"
  by (simp add: increment_def)

lemma funpow_increment_ge: "c \<le> (increment ^^ n) c"
proof (induction n)
  case 0
  show ?case by simp
next
  case (Suc n)
  have "(increment ^^ n) c \<le> increment ((increment ^^ n) c)" by (rule increment_ge)
  with Suc show ?case by simp
qed

lemma funpow_increment_exact:
  "- (2 ^ 53) \<le> c \<Longrightarrow> (increment ^^ n) c < 2 ^ 53 \<Longrightarrow> (increment ^^ n) c = c + int n"
proof (induction n)
  case 0
  show ?case by simp
next
  case (Suc n)
  have le: "(increment ^^ n) c \<le> increment ((increment ^^ n) c)" by (rule increment_ge)
  with Suc.prems have below: "(increment ^^ n) c < 2 ^ 53" by simp
  with Suc have eq: "(increment ^^ n) c = c + int n" by simp
  have "increment (c + int n) = c + int n + 1"
    using Suc.prems(1) below eq by (intro increment_exact) simp_all
  with eq show ?case by simp
qed


section \<open>The entry points on documents\<close>

lemma filter_shorter: "length (filter P xs) < length xs \<longleftrightarrow> (\<exists>x\<in>set xs. \<not> P x)"
  by (metis length_filter_less filter_True less_irrefl)

lemma findIndex_None: "findIndex P xs = None \<longleftrightarrow> (\<forall>x\<in>set xs. \<not> P x)"
  by (induction xs) auto

lemma findIndex_Some: "findIndex P xs = Some i \<Longrightarrow> i < length xs \<and> P (xs ! i)"
  by (induction xs arbitrary: i) (auto split: if_splits)

lemma find_None: "find P xs = None \<longleftrightarrow> (\<forall>x\<in>set xs. \<not> P x)"
  by (induction xs) auto

lemma no_window_document: "\<not> window e \<Longrightarrow> document e = initial"
  by (simp add: document_def getStorageData_def)

lemma document_saved: "window e \<Longrightarrow> document (saveStorageData d (snd (getStorageData e))) = d"
  by (simp add: document_save window_get)

lemma createProblem_unfold:
  "createProblem t d c s f st tg now e =
     (increment (c_problems (counters (document e))),
      saveStorageData ((document e)\<lparr>
          counters := (counters (document e))\<lparr>c_problems := increment (c_problems (counters (document e)))\<rparr>,
          problems := problems (document e) @
            [\<lparr>p_id = increment (c_problems (counters (document e))), p_title = t, p_description = d,
              p_observed_context = c, p_severity = s, p_frequency = f, p_status = st,
              p_tags = tg, p_created_at = now, p_updated_at = now\<rparr>]\<rparr>)
        (snd (getStorageData e)))"
  by (simp add: createProblem_def document_def getNextId_def Let_def split: prod.splits)

lemma createIdea_unfold:
  "createIdea t p u v d a r st sc tg now e =
     (increment (c_ideas (counters (document e))),
      saveStorageData ((document e)\<lparr>
          counters := (counters (document e))\<lparr>c_ideas := increment (c_ideas (counters (document e)))\<rparr>,
          ideas := ideas (document e) @
            [\<lparr>i_id = increment (c_ideas (counters (document e))), i_title = t, i_pitch = p,
              i_target_user = u, i_value_prop = v, i_differentiation = d, i_assumptions = a,
              i_risks = r, i_status = st, i_score = sc, i_tags = tg,
              i_created_at = now, i_updated_at = now\<rparr>]\<rparr>)
        (snd (getStorageData e)))"
  by (simp add: createIdea_def document_def getNextId_def Let_def split: prod.splits)

lemma createNote_unfold:
  "createNote ty c l p i now e =
     (increment (c_notes (counters (document e))),
      saveStorageData ((document e)\<lparr>
          counters := (counters (document e))\<lparr>c_notes := increment (c_notes (counters (document e)))\<rparr>,
          notes := notes (document e) @
            [\<lparr>n_id = increment (c_notes (counters (document e))), n_note_type = ty, n_content = c,
              n_links = l, n_problem_id = p, n_idea_id = i, n_created_at = now\<rparr>]\<rparr>)
        (snd (getStorageData e)))"
  by (simp add: createNote_def document_def getNextId_def Let_def split: prod.splits)

lemma updateProblem_unfold:
  "updateProblem k t d c s f st tg now e =
     (case findIndex (\<lambda>p. p_id p = k) (problems (document e)) of
        None \<Rightarrow> (False, snd (getStorageData e))
      | Some index \<Rightarrow> (True, saveStorageData
          ((document e)\<lparr>problems := (problems (document e))[index :=
             (problems (document e) ! index)\<lparr>p_title := t, p_description := d,
                p_observed_context := c, p_severity := s, p_frequency := f, p_status := st,
                p_tags := tg, p_updated_at := now\<rparr>]\<rparr>) (snd (getStorageData e))))"
  by (simp add: updateProblem_def document_def Let_def split: prod.splits option.splits)

lemma updateIdea_unfold:
  "updateIdea k t p u v d a r st sc tg now e =
     (case findIndex (\<lambda>i. i_id i = k) (ideas (document e)) of
        None \<Rightarrow> (False, snd (getStorageData e))
      | Some index \<Rightarrow> (True, saveStorageData
          ((document e)\<lparr>ideas := (ideas (document e))[index :=
             (ideas (document e) ! index)\<lparr>i_title := t, i_pitch := p, i_target_user := u,
                i_value_prop := v, i_differentiation := d, i_assumptions := a, i_risks := r,
                i_status := st, i_score := sc, i_tags := tg, i_updated_at := now\<rparr>]\<rparr>)
          (snd (getStorageData e))))"
  by (simp add: updateIdea_def document_def Let_def split: prod.splits option.splits)

lemma updateNote_unfold:
  "updateNote k ty c l p i e =
     (case findIndex (\<lambda>n. n_id n = k) (notes (document e)) of
        None \<Rightarrow> (False, snd (getStorageData e))
      | Some index \<Rightarrow> (True, saveStorageData
          ((document e)\<lparr>notes := (notes (document e))[index :=
             (notes (document e) ! index)\<lparr>n_note_type := ty, n_content := c, n_links := l,
                n_problem_id := p, n_idea_id := i\<rparr>]\<rparr>) (snd (getStorageData e))))"
  by (simp add: updateNote_def document_def Let_def split: prod.splits option.splits)

lemma deleteIdea_unfold:
  "deleteIdea k e =
     (if \<exists>i\<in>set (ideas (document e)). i_id i = k
      then (True, saveStorageData
         ((document e)\<lparr>ideas := filter (\<lambda>i. i_id i \<noteq> k) (ideas (document e)),
            links := filter (\<lambda>l. l_idea_id l \<noteq> k) (links (document e)),
            notes := map (\<lambda>n. if n_idea_id n = Some k then n\<lparr>n_idea_id := None\<rparr> else n)
                       (notes (document e))\<rparr>) (snd (getStorageData e)))
      else (False, snd (getStorageData e)))"
  by (simp add: deleteIdea_def document_def Let_def filter_shorter split: prod.splits)

lemma deleteNote_unfold:
  "deleteNote k e =
     (if \<exists>n\<in>set (notes (document e)). n_id n = k
      then (True, saveStorageData
         ((document e)\<lparr>notes := filter (\<lambda>n. n_id n \<noteq> k) (notes (document e))\<rparr>)
         (snd (getStorageData e)))
      else (False, snd (getStorageData e)))"
  by (simp add: deleteNote_def document_def Let_def filter_shorter split: prod.splits)

lemma linkProblemToIdea_unfold:
  "linkProblemToIdea p i e =
     (if \<exists>l\<in>set (links (document e)). l_problem_id l = p \<and> l_idea_id l = i
      then (False, snd (getStorageData e))
      else (True, saveStorageData
         ((document e)\<lparr>
            counters := (counters (document e))\<lparr>c_links := increment (c_links (counters (document e)))\<rparr>,
            links := links (document e) @
              [\<lparr>l_id = increment (c_links (counters (document e))), l_problem_id = p, l_idea_id = i\<rparr>]\<rparr>)
         (snd (getStorageData e))))"
  by (simp add: linkProblemToIdea_def document_def getNextId_def Let_def list_ex_iff
      split: prod.splits)

lemma unlinkProblemFromIdea_unfold:
  "unlinkProblemFromIdea p i e =
     (if \<exists>l\<in>set (links (document e)). l_problem_id l = p \<and> l_idea_id l = i
      then (True, saveStorageData
         ((document e)\<lparr>links := filter (\<lambda>l. \<not> (l_problem_id l = p \<and> l_idea_id l = i))
            (links (document e))\<rparr>) (snd (getStorageData e)))
      else (False, snd (getStorageData e)))"
  by (simp add: unlinkProblemFromIdea_def document_def Let_def filter_shorter split: prod.splits)

lemma setProblemLinksForIdea_unfold:
  "setProblemLinksForIdea i ps e =
     saveStorageData (fold (addLink i) ps
        ((document e)\<lparr>links := filter (\<lambda>l. l_idea_id l \<noteq> i) (links (document e))\<rparr>))
       (snd (getStorageData e))"
  by (simp add: setProblemLinksForIdea_def document_def Let_def split: prod.splits)

lemma deleteProblem_unfold:
  "deleteProblem k e =
     (if \<exists>p\<in>set (problems (document e)). p_id p = k
      then (True, saveStorageData
         ((document e)\<lparr>problems := filter (\<lambda>p. p_id p \<noteq> k) (problems (document e)),
            links := filter (\<lambda>l. l_problem_id l \<noteq> k) (links (document e)),
            notes := map (\<lambda>n. if n_problem_id n = Some k then n\<lparr>n_problem_id := None\<rparr> else n)
                       (notes (document e))\<rparr>) (snd (getStorageData e)))
      else (False, snd (getStorageData e)))"
  by (simp add: deleteProblem_def document_def Let_def filter_shorter split: prod.splits)

lemma deleteProblem_present:
  assumes "\<exists>p\<in>set (problems (document e)). p_id p = k"
  shows "fst (deleteProblem k e)"
    and "document (snd (deleteProblem k e)) =
      (document e)\<lparr>problems := filter (\<lambda>p. p_id p \<noteq> k) (problems (document e)),
          links := filter (\<lambda>l. l_problem_id l \<noteq> k) (links (document e)),
          notes := map (\<lambda>n. if n_problem_id n = Some k then n\<lparr>n_problem_id := None\<rparr> else n)
                     (notes (document e))\<rparr>"
proof -
  have w: "window e"
    using assms by (cases "window e") (simp_all add: no_window_document initial_def)
  show "fst (deleteProblem k e)"
    using assms by (simp add: deleteProblem_unfold)
  show "document (snd (deleteProblem k e)) =
      (document e)\<lparr>problems := filter (\<lambda>p. p_id p \<noteq> k) (problems (document e)),
          links := filter (\<lambda>l. l_problem_id l \<noteq> k) (links (document e)),
          notes := map (\<lambda>n. if n_problem_id n = Some k then n\<lparr>n_problem_id := None\<rparr> else n)
                     (notes (document e))\<rparr>"
    using assms w by (simp add: deleteProblem_unfold document_saved)
qed

lemma deleteProblem_absent:
  assumes "\<forall>p\<in>set (problems (document e)). p_id p \<noteq> k"
  shows "deleteProblem k e = (False, snd (getStorageData e))"
  using assms by (simp add: deleteProblem_unfold)

lemma getProblemById_unfold:
  "getProblemById k e = (find (\<lambda>p. p_id p = k) (problems (document e)), snd (getStorageData e))"
  by (simp add: getProblemById_def document_def split: prod.splits)

lemma getIdeaById_unfold:
  "getIdeaById k e = (find (\<lambda>i. i_id i = k) (ideas (document e)), snd (getStorageData e))"
  by (simp add: getIdeaById_def document_def split: prod.splits)

lemma getNoteById_unfold:
  "getNoteById k e = (find (\<lambda>n. n_id n = k) (notes (document e)), snd (getStorageData e))"
  by (simp add: getNoteById_def document_def split: prod.splits)

lemma getIdeasForProblem_unfold:
  "getIdeasForProblem p e =
     (filter (\<lambda>i. i_id i \<in> set (map l_idea_id
          (filter (\<lambda>l. l_problem_id l = p) (links (document e))))) (ideas (document e)),
      snd (getStorageData e))"
  by (simp add: getIdeasForProblem_def document_def Let_def split: prod.splits)

lemma getProblemsForIdea_unfold:
  "getProblemsForIdea i e =
     (filter (\<lambda>p. p_id p \<in> set (map l_problem_id
          (filter (\<lambda>l. l_idea_id l = i) (links (document e))))) (problems (document e)),
      snd (getStorageData e))"
  by (simp add: getProblemsForIdea_def document_def Let_def split: prod.splits)

lemmas unfolds = createProblem_unfold createIdea_unfold createNote_unfold updateProblem_unfold
  updateIdea_unfold updateNote_unfold deleteProblem_unfold deleteIdea_unfold deleteNote_unfold
  linkProblemToIdea_unfold unlinkProblemFromIdea_unfold setProblemLinksForIdea_unfold

lemma window_exec: "window (snd (exec x e)) = window e"
  by (cases x) (simp_all add: unfolds importAllData_def clearAllData_def window_save window_get
      split: option.splits)

lemma window_run: "window (run xs e) = window e"
  by (induction xs arbitrary: e) (simp_all add: window_exec)

subsection \<open>Replacing the links of an idea\<close>

lemma fold_addLink:
  "fold (addLink i) ps d =
     d\<lparr>counters := (counters d)\<lparr>c_links := (increment ^^ length ps) (c_links (counters d))\<rparr>,
       links := links d @ fresh_links i (c_links (counters d)) ps\<rparr>"
  by (induction ps arbitrary: d) (simp_all add: addLink_def getNextId_def funpow_swap1)



lemma idea_id_fresh_links: "l \<in> set (fresh_links i c ps) \<Longrightarrow> l_idea_id l = i"
  by (induction ps arbitrary: c) auto

lemma filter_fresh_links: "filter (\<lambda>l. l_idea_id l = i) (fresh_links i c ps) = fresh_links i c ps"
  by (simp add: idea_id_fresh_links)

text \<open>While the counter stays in the exact range, the new links are numbered from
  \<open>c + 1\<close> on.\<close>

lemma id_fresh_links:
  "- (2 ^ 53) \<le> c \<Longrightarrow> c + int (length ps) \<le> 2 ^ 53 \<Longrightarrow> l \<in> set (fresh_links i c ps)
     \<Longrightarrow> c < l_id l \<and> l_id l \<le> c + int (length ps)"
proof (induction ps arbitrary: c)
  case Nil
  then show ?case by simp
next
  case (Cons p ps)
  have inc: "increment c = c + 1"
    using Cons.prems by (intro increment_exact) simp_all
  show ?case
  proof (cases "l \<in> set (fresh_links i (c + 1) ps)")
    case True
    have "c + 1 < l_id l \<and> l_id l \<le> c + 1 + int (length ps)"
      using Cons.prems True by (intro Cons.IH) simp_all
    then show ?thesis by simp
  next
    case False
    with Cons.prems(3) have "l_id l = c + 1" by (simp add: inc)
    then show ?thesis by simp
  qed
qed

lemma ids_fresh_links_increasing:
  "- (2 ^ 53) \<le> c \<Longrightarrow> c + int (length ps) \<le> 2 ^ 53
     \<Longrightarrow> sorted_wrt (<) (map l_id (fresh_links i c ps))"
proof (induction ps arbitrary: c)
  case Nil
  then show ?case by simp
next
  case (Cons p ps)
  have inc: "increment c = c + 1"
    using Cons.prems by (intro increment_exact) simp_all
  have rest: "sorted_wrt (<) (map l_id (fresh_links i (c + 1) ps))"
    using Cons.prems by (intro Cons.IH) simp_all
  have "\<forall>l\<in>set (fresh_links i (c + 1) ps). c + 1 < l_id l"
    using Cons.prems id_fresh_links [of "c + 1" ps _ i] by simp
  with rest show ?case by (simp add: inc)
qed

lemma setProblemLinksForIdea_document:
  "window e \<Longrightarrow> document (setProblemLinksForIdea i ps e) =
     (document e)\<lparr>
        counters := (counters (document e))\<lparr>c_links :=
          (increment ^^ length ps) (c_links (counters (document e)))\<rparr>,
        links := filter (\<lambda>l. l_idea_id l \<noteq> i) (links (document e))
                 @ fresh_links i (c_links (counters (document e))) ps\<rparr>"
  by (simp add: setProblemLinksForIdea_unfold document_saved fold_addLink)

lemma links_of_idea_after_set:
  "window e \<Longrightarrow> filter (\<lambda>l. l_idea_id l = i) (links (document (setProblemLinksForIdea i ps e)))
     = fresh_links i (c_links (counters (document e))) ps"
  by (simp add: setProblemLinksForIdea_document filter_fresh_links)



subsection \<open>The sample store\<close>

lemma window_cascade_scenario: "window cascade_scenario"
  unfolding cascade_scenario_def window_run by (simp add: empty_store_def)

lemma document_cascade_scenario:
  "document cascade_scenario =
     \<lparr>problems =
        [\<lparr>p_id = 1, p_title = ''Slow onboarding'', p_description = [],
          p_observed_context = [], p_severity = 4, p_frequency = Weekly, p_status = Open,
          p_tags = [], p_created_at = 1000, p_updated_at = 1000\<rparr>],
      ideas =
        [\<lparr>i_id = 1, i_title = ''Guided setup wizard'', i_pitch = [], i_target_user = [],
          i_value_prop = [], i_differentiation = [], i_assumptions = [], i_risks = [],
          i_status = New, i_score = None, i_tags = [], i_created_at = 2000,
          i_updated_at = 2000\<rparr>,
         \<lparr>i_id = 2, i_title = ''Onboarding checklist'', i_pitch = [], i_target_user = [],
          i_value_prop = [], i_differentiation = [], i_assumptions = [], i_risks = [],
          i_status = New, i_score = None, i_tags = [], i_created_at = 3000,
          i_updated_at = 3000\<rparr>],
      notes =
        [\<lparr>n_id = 1, n_note_type = Interview, n_content = ''Users drop out at step 3'',
          n_links = [], n_problem_id = Some 1, n_idea_id = None, n_created_at = 4000\<rparr>],
      links =
        [\<lparr>l_id = 1, l_problem_id = 1, l_idea_id = 1\<rparr>,
         \<lparr>l_id = 2, l_problem_id = 1, l_idea_id = 2\<rparr>],
      counters = \<lparr>c_problems = 1, c_ideas = 2, c_notes = 1, c_links = 2\<rparr>\<rparr>"
  by (simp add: cascade_scenario_def empty_store_def unfolds getStorageData_def
      saveStorageData_def document_def initial_def increment_def)

lemma window_one_problem_one_idea: "window one_problem_one_idea"
  unfolding one_problem_one_idea_def window_run by (simp add: empty_store_def)

lemma document_one_problem_one_idea:
  "document one_problem_one_idea =
     \<lparr>problems =
        [\<lparr>p_id = 1, p_title = ''Slow onboarding'', p_description = [],
          p_observed_context = [], p_severity = 4, p_frequency = Weekly, p_status = Open,
          p_tags = [], p_created_at = 1000, p_updated_at = 1000\<rparr>],
      ideas =
        [\<lparr>i_id = 1, i_title = ''Guided setup wizard'', i_pitch = [], i_target_user = [],
          i_value_prop = [], i_differentiation = [], i_assumptions = [], i_risks = [],
          i_status = New, i_score = None, i_tags = [], i_created_at = 2000,
          i_updated_at = 2000\<rparr>],
      notes = [], links = [],
      counters = \<lparr>c_problems = 1, c_ideas = 1, c_notes = 0, c_links = 0\<rparr>\<rparr>"
  by (simp add: one_problem_one_idea_def empty_store_def unfolds getStorageData_def
      saveStorageData_def document_def initial_def increment_def)

lemma document_duplicate_links_scenario:
  "document duplicate_links_scenario =
     \<lparr>problems =
        [\<lparr>p_id = 1, p_title = ''Slow onboarding'', p_description = [],
          p_observed_context = [], p_severity = 4, p_frequency = Weekly, p_status = Open,
          p_tags = [], p_created_at = 1000, p_updated_at = 1000\<rparr>],
      ideas =
        [\<lparr>i_id = 1, i_title = ''Guided setup wizard'', i_pitch = [], i_target_user = [],
          i_value_prop = [], i_differentiation = [], i_assumptions = [], i_risks = [],
          i_status = New, i_score = None, i_tags = [], i_created_at = 2000,
          i_updated_at = 2000\<rparr>],
      notes = [],
      links = [\<lparr>l_id = 1, l_problem_id = 1, l_idea_id = 1\<rparr>,
               \<lparr>l_id = 2, l_problem_id = 1, l_idea_id = 1\<rparr>],
      counters = \<lparr>c_problems = 1, c_ideas = 1, c_notes = 0, c_links = 2\<rparr>\<rparr>"
  by (simp add: duplicate_links_scenario_def setProblemLinksForIdea_document
      window_one_problem_one_idea document_one_problem_one_idea increment_def)


lemma window_links_counter_near_limit: "window links_counter_near_limit"
  by (simp add: links_counter_near_limit_def importAllData_def window_save empty_store_def)

lemma document_links_counter_near_limit:
  "document links_counter_near_limit =
     \<lparr>problems = [], ideas = [], notes = [], links = [],
      counters = \<lparr>c_problems = 0, c_ideas = 0, c_notes = 0, c_links = 2 ^ 53 - 1\<rparr>\<rparr>"
  by (simp add: links_counter_near_limit_def importAllData_def empty_store_def
      getStorageData_def saveStorageData_def document_def initial_def)

lemma window_links_counter_at_limit: "window links_counter_at_limit"
  by (simp add: links_counter_at_limit_def linkProblemToIdea_unfold window_save window_get
      window_links_counter_near_limit document_links_counter_near_limit)

lemma document_links_counter_at_limit:
  "document links_counter_at_limit =
     \<lparr>problems = [], ideas = [], notes = [],
      links = [\<lparr>l_id = 2 ^ 53, l_problem_id = 1, l_idea_id = 1\<rparr>],
      counters = \<lparr>c_problems = 0, c_ideas = 0, c_notes = 0, c_links = 2 ^ 53\<rparr>\<rparr>"
  by (simp add: links_counter_at_limit_def linkProblemToIdea_unfold document_saved
      window_links_counter_near_limit document_links_counter_near_limit increment_def)

subsection \<open>Sorting with a comparator\<close>










subsection \<open>Counters and minted ids\<close>

lemma document_exec_no_window: "\<not> window e \<Longrightarrow> document (snd (exec x e)) = initial"
  by (simp add: no_window_document window_exec)

lemma counters_exec:
  assumes "\<not> resets x"
  shows "counter k (counters (document e)) \<le> counter k (counters (document (snd (exec x e))))"
proof (cases "window e")
  case False
  then show ?thesis by (simp add: no_window_document document_exec_no_window)
next
  case True
  then show ?thesis using assms
    by (cases x; cases k)
      (simp_all add: unfolds document_saved document_get fold_addLink increment_ge
        funpow_increment_ge split: option.splits)
qed

lemma counters_run:
  assumes "\<forall>x\<in>set ops. \<not> resets x"
  shows "counter k (counters (document e)) \<le> counter k (counters (document (run ops e)))"
  using assms
proof (induction ops arbitrary: e)
  case Nil
  show ?case by simp
next
  case (Cons x xs)
  have "counter k (counters (document e)) \<le> counter k (counters (document (snd (exec x e))))"
    using Cons.prems by (intro counters_exec) simp
  also have "\<dots> \<le> counter k (counters (document (run xs (snd (exec x e)))))"
    using Cons.prems by (intro Cons.IH) simp
  finally show ?case by simp
qed

lemma minted_bounds:
  assumes "window e" "n \<in> set (minted k x e)"
    and "- (2 ^ 53) \<le> counter k (counters (document e))"
    and "counter k (counters (document (snd (exec x e)))) < 2 ^ 53"
  shows "counter k (counters (document e)) < n
       \<and> n \<le> counter k (counters (document (snd (exec x e))))"
proof (cases x)
  case (SetProblemLinksForIdea i ps)
  show ?thesis
  proof (cases k)
    case K_links
    define c where "c = c_links (counters (document e))"
    have after: "c_links (counters (document (setProblemLinksForIdea i ps e)))
        = (increment ^^ length ps) c"
      using assms(1) by (simp add: setProblemLinksForIdea_document c_def)
    have low: "- (2 ^ 53) \<le> c" using assms(3) K_links by (simp add: c_def)
    have "(increment ^^ length ps) c < 2 ^ 53"
      using assms(4) SetProblemLinksForIdea K_links after by simp
    then have exact: "(increment ^^ length ps) c = c + int (length ps)"
      using low by (intro funpow_increment_exact)
    have "n \<in> l_id ` set (fresh_links i c ps)"
      using assms(1,2) SetProblemLinksForIdea K_links
      by (simp add: links_of_idea_after_set c_def)
    then obtain l where l: "l \<in> set (fresh_links i c ps)" "n = l_id l" by blast
    have "c < l_id l \<and> l_id l \<le> c + int (length ps)"
      using low exact \<open>(increment ^^ length ps) c < 2 ^ 53\<close> l(1)
      by (intro id_fresh_links) simp_all
    then show ?thesis
      using l(2) SetProblemLinksForIdea K_links after exact by (simp add: c_def)
  qed (use assms(2) SetProblemLinksForIdea in simp_all)
next
  case (CreateProblem t d c s f st tg now)
  then show ?thesis using assms
    by (cases k) (auto simp: createProblem_unfold document_saved increment_def split: if_splits)
next
  case (CreateIdea t p u v d a r st sc tg now)
  then show ?thesis using assms
    by (cases k) (auto simp: createIdea_unfold document_saved increment_def split: if_splits)
next
  case (CreateNote ty c l p i now)
  then show ?thesis using assms
    by (cases k) (auto simp: createNote_unfold document_saved increment_def split: if_splits)
next
  case (LinkProblemToIdea p i)
  then show ?thesis using assms
    by (cases k)
      (auto simp: linkProblemToIdea_unfold document_saved document_get increment_def
        split: if_splits)
qed (use assms(2) in simp_all)

lemma minted_increasing:
  assumes "window e"
    and "- (2 ^ 53) \<le> counter k (counters (document e))"
    and "counter k (counters (document (snd (exec x e)))) < 2 ^ 53"
  shows "sorted_wrt (<) (minted k x e)"
proof (cases x)
  case (SetProblemLinksForIdea i ps)
  show ?thesis
  proof (cases k)
    case K_links
    define c where "c = c_links (counters (document e))"
    have low: "- (2 ^ 53) \<le> c" using assms(2) K_links by (simp add: c_def)
    have below: "(increment ^^ length ps) c < 2 ^ 53"
      using assms(1,3) SetProblemLinksForIdea K_links
      by (simp add: setProblemLinksForIdea_document c_def)
    then have "(increment ^^ length ps) c = c + int (length ps)"
      using low by (intro funpow_increment_exact)
    with below have "c + int (length ps) \<le> 2 ^ 53" by simp
    then have "sorted_wrt (<) (map l_id (fresh_links i c ps))"
      using low by (intro ids_fresh_links_increasing)
    then show ?thesis
      using assms(1) SetProblemLinksForIdea K_links
      by (simp add: links_of_idea_after_set c_def)
  qed (use SetProblemLinksForIdea in simp_all)
qed simp_all

lemma minted_by_run_bounds:
  assumes "window e" "\<forall>x\<in>set ops. \<not> resets x"
    and "- (2 ^ 53) \<le> counter k (counters (document e))"
    and "counter k (counters (document (run ops e))) < 2 ^ 53"
  shows "sorted_wrt (<) (minted_by_run k ops e)
       \<and> (\<forall>n\<in>set (minted_by_run k ops e).
             counter k (counters (document e)) < n
             \<and> n \<le> counter k (counters (document (run ops e))))"
  using assms
proof (induction ops arbitrary: e)
  case Nil
  then show ?case by simp
next
  case (Cons x xs)
  define e' where "e' = snd (exec x e)"
  have w': "window e'" using Cons.prems(1) by (simp add: e'_def window_exec)
  have nr: "\<not> resets x" and nrs: "\<forall>y\<in>set xs. \<not> resets y" using Cons.prems(2) by simp_all
  have step: "counter k (counters (document e)) \<le> counter k (counters (document e'))"
    unfolding e'_def by (rule counters_exec [OF nr])
  have rest: "counter k (counters (document e')) \<le> counter k (counters (document (run xs e')))"
    by (rule counters_run [OF nrs])
  have final: "counter k (counters (document (run xs e'))) < 2 ^ 53"
    using Cons.prems(4) by (simp add: e'_def)
  have low': "- (2 ^ 53) \<le> counter k (counters (document e'))"
    using Cons.prems(3) step by simp
  have below': "counter k (counters (document e')) < 2 ^ 53"
    using rest final by simp
  note ih = Cons.IH [OF w' nrs low' final]
  have first: "\<forall>n\<in>set (minted k x e). counter k (counters (document e)) < n
      \<and> n \<le> counter k (counters (document e'))"
    using minted_bounds [OF Cons.prems(1) _ Cons.prems(3)] below' by (simp add: e'_def)
  have sorted_first: "sorted_wrt (<) (minted k x e)"
    using below' by (intro minted_increasing [OF Cons.prems(1) Cons.prems(3)]) (simp add: e'_def)
  have cross: "\<forall>a\<in>set (minted k x e). \<forall>b\<in>set (minted_by_run k xs e'). a < b"
    using first ih by fastforce
  have 1: "sorted_wrt (<) (minted_by_run k (x # xs) e)"
    using sorted_first ih cross by (simp add: sorted_wrt_append e'_def [symmetric])
  have 2: "\<forall>n\<in>set (minted_by_run k (x # xs) e).
             counter k (counters (document e)) < n
             \<and> n \<le> counter k (counters (document (run (x # xs) e)))"
    using first ih step rest by (fastforce simp: e'_def [symmetric])
  from 1 2 show ?case by blast
qed

subsection \<open>Links and the records they name\<close>

lemma problem_exists_iff: "problem_exists d k \<longleftrightarrow> k \<in> set (map p_id (problems d))"
  by (auto simp: problem_exists_def list_ex_iff)

lemma idea_exists_iff: "idea_exists d k \<longleftrightarrow> k \<in> set (map i_id (ideas d))"
  by (auto simp: idea_exists_def list_ex_iff)

lemma links_reference_records_iff:
  "links_reference_records d \<longleftrightarrow>
     (\<forall>l\<in>set (links d). l_problem_id l \<in> set (map p_id (problems d))
        \<and> l_idea_id l \<in> set (map i_id (ideas d)))"
  by (simp add: links_reference_records_def list_all_iff problem_exists_iff idea_exists_iff)

lemma map_update_same_key:
  "i < length xs \<Longrightarrow> f y = f (xs ! i) \<Longrightarrow> map f (xs[i := y]) = map f xs"
  by (simp add: map_update list_update_same_conv)

lemma problem_id_fresh_links: "l \<in> set (fresh_links i c ps) \<Longrightarrow> l_problem_id l \<in> set ps"
  by (induction ps arbitrary: c) auto

lemma exec_keeps_links_reference_records:
  assumes "links_reference_records (document e)" "caller_passes_existing_ids x (document e)"
  shows "links_reference_records (document (snd (exec x e)))"
proof (cases "window e")
  case False
  then show ?thesis
    by (simp add: document_exec_no_window links_reference_records_iff initial_def)
next
  case True
  show ?thesis
  proof (cases x)
    case (UpdateProblem k t d c s f st tg now)
    then show ?thesis using assms True
      by (auto simp: updateProblem_unfold document_saved document_get
          links_reference_records_iff map_update_same_key
          dest: findIndex_Some split: option.splits simp del: set_map)
  next
    case (UpdateIdea k t p u v d a r st sc tg now)
    then show ?thesis using assms True
      by (auto simp: updateIdea_unfold document_saved document_get
          links_reference_records_iff map_update_same_key
          dest: findIndex_Some split: option.splits simp del: set_map)
  next
    case (UpdateNote k ty c l p i)
    then show ?thesis using assms True
      by (auto simp: updateNote_unfold document_saved document_get
          links_reference_records_iff split: option.splits)
  next
    case (SetProblemLinksForIdea i ps)
    then show ?thesis using assms True
      by (auto simp: setProblemLinksForIdea_document links_reference_records_iff
          problem_exists_iff idea_exists_iff list_all_iff
          dest: problem_id_fresh_links idea_id_fresh_links)
  qed (use assms True in \<open>auto simp: unfolds document_saved document_get
          links_reference_records_iff problem_exists_iff idea_exists_iff
          importAllData_def clearAllData_def document_save initial_def\<close>)
qed

lemma run_keeps_links_reference_records:
  assumes "links_reference_records (document e)" "callers_pass_existing_ids ops e"
  shows "links_reference_records (document (run ops e))"
  using assms
proof (induction ops arbitrary: e)
  case Nil
  then show ?case by simp
next
  case (Cons x xs)
  from Cons.prems have "links_reference_records (document (snd (exec x e)))"
    by (simp add: exec_keeps_links_reference_records)
  moreover from Cons.prems have "callers_pass_existing_ids xs (snd (exec x e))"
    by simp
  ultimately show ?case using Cons.IH by simp
qed

subsection \<open>Pairs of the link table\<close>

lemma pairs_fresh_links: "map link_pair (fresh_links i c ps) = map (\<lambda>p. (p, i)) ps"
  by (induction ps arbitrary: c) (simp_all add: link_pair_def)

lemma distinct_pairs_fresh_links:
  "distinct (map link_pair (fresh_links i c ps)) \<longleftrightarrow> distinct ps"
  by (simp add: pairs_fresh_links distinct_map inj_on_def)

text \<open>Every call keeps the pairs of the links distinct, as long as the list given to
  \<^verbatim>\<open>setProblemLinksForIdea\<close> names no problem twice and an imported document has no
  duplicate pair.\<close>

lemma exec_keeps_no_duplicate_links:
  assumes "no_duplicate_links (document e)"
    and "case x of SetProblemLinksForIdea i ps \<Rightarrow> distinct ps
         | ImportAllData d \<Rightarrow> no_duplicate_links d | _ \<Rightarrow> True"
  shows "no_duplicate_links (document (snd (exec x e)))"
proof (cases "window e")
  case False
  then show ?thesis
    by (simp add: document_exec_no_window no_duplicate_links_def initial_def)
next
  case True
  show ?thesis
  proof (cases x)
    case (LinkProblemToIdea p i)
    then show ?thesis using assms True
      by (auto simp: linkProblemToIdea_unfold document_saved document_get
          no_duplicate_links_def link_pair_def)
  next
    case (SetProblemLinksForIdea i ps)
    then show ?thesis using assms True
      by (auto simp: setProblemLinksForIdea_document no_duplicate_links_def
          distinct_map_filter distinct_pairs_fresh_links link_pair_def
          dest: idea_id_fresh_links)
  qed (use assms True in \<open>auto simp: unfolds document_saved document_get
          no_duplicate_links_def distinct_map_filter
          importAllData_def clearAllData_def document_save initial_def
          split: option.splits\<close>)
qed

section \<open>Duplicate pairs in the link table\<close>

text \<open>
  Claim C1 says that every mutation keeps the pairs \<open>(problem_id, idea_id)\<close> of the
  links distinct, \<^verbatim>\<open>setProblemLinksForIdea\<close> for every list \<open>problem_ids\<close>.
  \<^verbatim>\<open>linkProblemToIdea\<close> checks for the pair before it appends; the loop of
  \<^verbatim>\<open>setProblemLinksForIdea\<close> appends without that check. In a store with problem 1 and
  idea 1 and no link, \<^verbatim>\<open>setProblemLinksForIdea(1, [1, 1])\<close> leaves two links with the
  pair \<open>(1, 1)\<close>.
\<close>

theorem C1_setProblemLinksForIdea_duplicates:
  "window one_problem_one_idea
   \<and> no_duplicate_links (document one_problem_one_idea)
   \<and> links (document (setProblemLinksForIdea 1 [1, 1] one_problem_one_idea))
       = [\<lparr>l_id = 1, l_problem_id = 1, l_idea_id = 1\<rparr>,
          \<lparr>l_id = 2, l_problem_id = 1, l_idea_id = 1\<rparr>]
   \<and> \<not> no_duplicate_links (document (setProblemLinksForIdea 1 [1, 1] one_problem_one_idea))"
  by (simp add: setProblemLinksForIdea_document window_one_problem_one_idea
      document_one_problem_one_idea no_duplicate_links_def link_pair_def increment_def)

section \<open>Links and the existence of the linked records\<close>

text \<open>
  Claim C2 says that the problem and the idea of a link exist when the link is made.
  Neither \<^verbatim>\<open>linkProblemToIdea\<close> nor \<^verbatim>\<open>setProblemLinksForIdea\<close> looks at the problems or
  the ideas: in the empty store \<^verbatim>\<open>linkProblemToIdea(3, 5)\<close> returns true and leaves a
  link between a problem and an idea that do not exist.
\<close>

theorem C2_link_without_records_counterexample:
  "fst (linkProblemToIdea 3 5 empty_store)
   \<and> links (document (snd (linkProblemToIdea 3 5 empty_store)))
       = [\<lparr>l_id = 1, l_problem_id = 3, l_idea_id = 5\<rparr>]
   \<and> problems (document (snd (linkProblemToIdea 3 5 empty_store))) = []
   \<and> ideas (document (snd (linkProblemToIdea 3 5 empty_store))) = []
   \<and> \<not> links_reference_records (document (snd (linkProblemToIdea 3 5 empty_store)))"
proof -
  have w: "window empty_store" by (simp add: empty_store_def)
  show ?thesis
    by (simp add: linkProblemToIdea_unfold document_saved w document_empty_store initial_def
        links_reference_records_iff increment_def)
qed

text \<open>
  Claim C2, amended. The link functions do not check their ids; the check is the
  caller's. Whenever every call of \<^verbatim>\<open>linkProblemToIdea\<close> and of
  \<^verbatim>\<open>setProblemLinksForIdea\<close> in a sequence of store operations is made with ids of a
  problem and an idea that are in the store at that moment (and every imported document
  has no dangling link), then, starting from the empty document or from any document
  without dangling links, every link of every state reached names a problem and an idea
  that exist in that state: links are made between existing records, and the deletes
  remove the links of what they delete.
\<close>

theorem C2_links_reference_existing_records:
  assumes "links_reference_records (document e)" "callers_pass_existing_ids ops e"
  shows "links_reference_records (document (run ops e))
       \<and> list_all (\<lambda>l. problem_exists (document (run ops e)) (l_problem_id l)
                      \<and> idea_exists (document (run ops e)) (l_idea_id l))
           (links (document (run ops e)))"
  using run_keeps_links_reference_records [OF assms]
  by (simp add: links_reference_records_def)

theorem C2_links_reference_existing_records_witness:
  "links_reference_records (document empty_store)
   \<and> callers_pass_existing_ids link_existing_records empty_store
   \<and> links (document (run link_existing_records empty_store))
       = [\<lparr>l_id = 2, l_problem_id = 1, l_idea_id = 2\<rparr>]
   \<and> links_reference_records (document (run link_existing_records empty_store))"
proof -
  have h: "links_reference_records (document empty_store)"
    by (simp add: document_empty_store initial_def links_reference_records_def)
  have c: "callers_pass_existing_ids link_existing_records empty_store"
    by (simp add: link_existing_records_def empty_store_def unfolds getStorageData_def
        saveStorageData_def document_def initial_def problem_exists_def idea_exists_def
        increment_def)
  have l: "links (document (run link_existing_records empty_store))
       = [\<lparr>l_id = 2, l_problem_id = 1, l_idea_id = 2\<rparr>]"
    by (simp add: link_existing_records_def empty_store_def unfolds getStorageData_def
        saveStorageData_def document_def initial_def addLink_def getNextId_def
        increment_def)
  from C2_links_reference_existing_records [OF h c] h c l
  show ?thesis by simp
qed

section \<open>Deleting a problem\<close>

text \<open>
  Claim C3. For every store state and every id present in the problems collection,
  \<^verbatim>\<open>deleteProblem(id)\<close> returns true, and afterwards: the problems are the former ones
  without those of that id; no link has that \<open>problem_id\<close> (the others are kept); the
  notes are the former ones, position by position, with \<open>problem_id\<close> set to null on
  exactly those that referred to the id and nothing else changed; the ideas are
  unchanged. If the id is not present, \<^verbatim>\<open>deleteProblem(id)\<close> returns false.
\<close>

theorem C3_deleteProblem_cascade:
  "((\<exists>p\<in>set (problems (document e)). p_id p = k) \<longrightarrow>
      fst (deleteProblem k e)
      \<and> problems (document (snd (deleteProblem k e)))
          = filter (\<lambda>p. p_id p \<noteq> k) (problems (document e))
      \<and> (\<forall>p\<in>set (problems (document (snd (deleteProblem k e)))). p_id p \<noteq> k)
      \<and> filter (\<lambda>l. l_problem_id l = k) (links (document (snd (deleteProblem k e)))) = []
      \<and> links (document (snd (deleteProblem k e)))
          = filter (\<lambda>l. l_problem_id l \<noteq> k) (links (document e))
      \<and> length (notes (document (snd (deleteProblem k e)))) = length (notes (document e))
      \<and> (\<forall>j < length (notes (document e)).
            notes (document (snd (deleteProblem k e))) ! j =
              (if n_problem_id (notes (document e) ! j) = Some k
               then (notes (document e) ! j)\<lparr>n_problem_id := None\<rparr>
               else notes (document e) ! j))
      \<and> ideas (document (snd (deleteProblem k e))) = ideas (document e))
   \<and> (\<not> (\<exists>p\<in>set (problems (document e)). p_id p = k) \<longrightarrow> \<not> fst (deleteProblem k e))"
proof (cases "\<exists>p\<in>set (problems (document e)). p_id p = k")
  case True
  note r = deleteProblem_present [OF True]
  show ?thesis using True by (simp add: r filter_empty_conv)
next
  case False
  then show ?thesis by (simp add: deleteProblem_absent)
qed



theorem C3_deleteProblem_cascade_witness:
  "(\<exists>p\<in>set (problems (document cascade_scenario)). p_id p = 1)
   \<and> fst (deleteProblem 1 cascade_scenario)
   \<and> problems (document (snd (deleteProblem 1 cascade_scenario))) = []
   \<and> links (document (snd (deleteProblem 1 cascade_scenario))) = []
   \<and> length (notes (document (snd (deleteProblem 1 cascade_scenario)))) = 1
   \<and> n_problem_id (notes (document (snd (deleteProblem 1 cascade_scenario))) ! 0) = None
   \<and> ideas (document (snd (deleteProblem 1 cascade_scenario))) = ideas (document cascade_scenario)"
  using C3_deleteProblem_cascade [of cascade_scenario 1]
  by (simp add: document_cascade_scenario)

section \<open>Replacing the links of an idea twice\<close>




section \<open>Export followed by import\<close>

text \<open>
  Claim C5. For every store state, \<^verbatim>\<open>importAllData(exportAllData())\<close> leaves each of the
  four collections and each of the four counters as it was before the export: the
  document read afterwards is the document read before, the import reports success, and
  this holds in every context (with no window both documents are the empty one).
\<close>

theorem C5_import_export_roundtrip:
  "(let (data, e1) = exportAllData e; (ok, e2) = importAllData data e1
    in ok \<and> document e2 = document e
       \<and> problems (document e2) = problems (document e)
       \<and> ideas (document e2) = ideas (document e)
       \<and> notes (document e2) = notes (document e)
       \<and> links (document e2) = links (document e)
       \<and> counters (document e2) = counters (document e))"
  by (simp add: exportAllData_def importAllData_def document_def getStorageData_def
      saveStorageData_def split: option.splits)

section \<open>Ids are never reused between two resets\<close>

text \<open>
  Claim C6 speaks of every sequence of store operations. \<^verbatim>\<open>clearAllData\<close> is one of
  them and sets the counters back to zero, so a create after it returns an id that an
  earlier create returned.
\<close>

theorem C6_clear_restarts_ids_counterexample:
  "minted_by_run K_problems create_clear_create empty_store = [1, 1]
   \<and> \<not> sorted_wrt (<) (minted_by_run K_problems create_clear_create empty_store)
   \<and> \<not> distinct (minted_by_run K_problems create_clear_create empty_store)"
proof -
  have "minted_by_run K_problems create_clear_create empty_store = [1, 1]"
    by (simp add: create_clear_create_def empty_store_def createProblem_unfold clearAllData_def
        getStorageData_def saveStorageData_def document_def initial_def increment_def)
  then show ?thesis by simp
qed

text \<open>
  The counters are doubles, and \<^verbatim>\<open>++\<close> is exact only below \<open>2^53\<close>: four creates
  after the import of a document whose problems counter stands at \<open>2^53 - 2\<close> return
  \<open>2^53 - 1\<close> and then \<open>2^53\<close> three times.
\<close>

lemma creates_near_limit_repeat:
  "minted_by_run K_problems creates_near_limit empty_store
     = [2 ^ 53 - 1, 2 ^ 53, 2 ^ 53, 2 ^ 53]"
  by (simp add: creates_near_limit_def empty_store_def createProblem_unfold importAllData_def
      getStorageData_def saveStorageData_def document_def initial_def increment_def)

text \<open>
  Claim C6, amended. For every sequence of store operations without \<^verbatim>\<open>clearAllData\<close>
  and \<^verbatim>\<open>importAllData\<close>, run in a store from the empty document (or from any document
  whose counter is \<open>-2^53\<close> or more), and as long as the counter of the collection
  stays below \<open>2^53\<close>, the ids minted in the collection (returned by
  \<^verbatim>\<open>createProblem\<close>, \<^verbatim>\<open>createIdea\<close>, \<^verbatim>\<open>createNote\<close>, given to new links) are strictly
  increasing and never repeat, whatever deletes come between the creates, and all lie
  above the counter the sequence started from; no operation except \<^verbatim>\<open>clearAllData\<close>
  and \<^verbatim>\<open>importAllData\<close> ever decrements a counter, whatever its value.
\<close>

theorem C6_ids_increase_between_resets:
  assumes "window e" "\<forall>x\<in>set ops. \<not> resets x"
    and "- (2 ^ 53) \<le> counter k (counters (document e))"
    and "counter k (counters (document (run ops e))) < 2 ^ 53"
  shows "sorted_wrt (<) (minted_by_run k ops e)
       \<and> distinct (minted_by_run k ops e)
       \<and> (\<forall>n\<in>set (minted_by_run k ops e). counter k (counters (document e)) < n)
       \<and> counter k (counters (document e)) \<le> counter k (counters (document (run ops e)))
       \<and> (\<not> resets x' \<longrightarrow>
            counter k (counters (document e'))
              \<le> counter k (counters (document (snd (exec x' e')))))"
proof -
  note b = minted_by_run_bounds [OF assms]
  have d: "distinct (minted_by_run k ops e)"
    using b strict_sorted_iff [of "minted_by_run k ops e"] by blast
  have m: "counter k (counters (document e)) \<le> counter k (counters (document (run ops e)))"
    by (rule counters_run [OF assms(2)])
  have c: "\<not> resets x' \<longrightarrow>
            counter k (counters (document e'))
              \<le> counter k (counters (document (snd (exec x' e'))))"
    using counters_exec [of x' k e'] by blast
  from b d m c show ?thesis by blast
qed

theorem C6_ids_increase_between_resets_witness:
  "window empty_store
   \<and> \<not> list_ex resets create_delete_create
   \<and> - (2 ^ 53) \<le> counter K_problems (counters (document empty_store))
   \<and> counter K_problems (counters (document (run create_delete_create empty_store))) < 2 ^ 53
   \<and> minted_by_run K_problems create_delete_create empty_store = [1, 2, 3]
   \<and> sorted_wrt (<) (minted_by_run K_problems create_delete_create empty_store)
   \<and> distinct (minted_by_run K_problems create_delete_create empty_store)
   \<and> counter K_problems (counters (document empty_store))
       \<le> counter K_problems (counters (document (run create_delete_create empty_store)))"
proof -
  have w: "window empty_store" by (simp add: empty_store_def)
  have r: "\<forall>x\<in>set create_delete_create. \<not> resets x"
    by (simp add: create_delete_create_def)
  have v: "minted_by_run K_problems create_delete_create empty_store = [1, 2, 3]"
    by (simp add: create_delete_create_def empty_store_def createProblem_unfold
        deleteProblem_unfold getStorageData_def saveStorageData_def document_def initial_def increment_def)
  have r': "\<not> list_ex resets create_delete_create"
    using r by (simp add: list_ex_iff)
  have lo: "- (2 ^ 53) \<le> counter K_problems (counters (document empty_store))"
    by (simp add: document_empty_store initial_def)
  have hi: "counter K_problems (counters (document (run create_delete_create empty_store)))
      < 2 ^ 53"
    by (simp add: create_delete_create_def empty_store_def createProblem_unfold
        deleteProblem_unfold getStorageData_def saveStorageData_def document_def initial_def
        increment_def)
  from C6_ids_increase_between_resets [OF w r lo hi] w r' lo hi v
  show ?thesis by blast
qed

section \<open>The order of the listings\<close>




section \<open>Linking a problem to an idea\<close>

text \<open>
  Claim C8 says that \<^verbatim>\<open>linkProblemToIdea\<close>, given a pair that no link carries, appends a
  link with a freshly minted id, in every store. The id is what \<^verbatim>\<open>++\<close> makes of the
  links counter, a double, and at \<open>2^53\<close> that is \<open>2^53\<close> again. In the store
  whose links counter has reached \<open>2^53\<close> with the link of id \<open>2^53\<close> for the pair
  \<open>(1, 1)\<close>, \<^verbatim>\<open>linkProblemToIdea(2, 1)\<close> returns true and appends a link with the same
  id \<open>2^53\<close>, and the counter is what it was.
\<close>

theorem C8_counter_at_the_limit_counterexample:
  "links (document links_counter_at_limit)
     = [\<lparr>l_id = 2 ^ 53, l_problem_id = 1, l_idea_id = 1\<rparr>]
   \<and> c_links (counters (document links_counter_at_limit)) = 2 ^ 53
   \<and> fst (linkProblemToIdea 2 1 links_counter_at_limit)
   \<and> links (document (snd (linkProblemToIdea 2 1 links_counter_at_limit)))
     = [\<lparr>l_id = 2 ^ 53, l_problem_id = 1, l_idea_id = 1\<rparr>,
        \<lparr>l_id = 2 ^ 53, l_problem_id = 2, l_idea_id = 1\<rparr>]
   \<and> c_links (counters (document (snd (linkProblemToIdea 2 1 links_counter_at_limit)))) = 2 ^ 53"
  by (simp add: linkProblemToIdea_unfold document_saved window_links_counter_at_limit
      document_links_counter_at_limit increment_def)

text \<open>
  Claim C8, amended. In a store, when a link with the pair \<open>(problem_id, idea_id)\<close>
  exists, \<^verbatim>\<open>linkProblemToIdea\<close> returns false and the document is unchanged (no link
  appended, links counter as before); when no such link exists, it returns true and
  appends exactly one link, with the given pair and the value \<^verbatim>\<open>getNextId\<close> gives the
  links counter as id, and nothing else changes. That id is freshly minted, the counter
  going up by one, whenever the links counter is an integer from \<open>-2^53\<close> to
  \<open>2^53 - 1\<close>.
\<close>

theorem C8_linkProblemToIdea:
  assumes "window e"
  shows "((\<exists>l\<in>set (links (document e)). l_problem_id l = p \<and> l_idea_id l = i) \<longrightarrow>
            \<not> fst (linkProblemToIdea p i e)
            \<and> document (snd (linkProblemToIdea p i e)) = document e
            \<and> links (document (snd (linkProblemToIdea p i e))) = links (document e)
            \<and> c_links (counters (document (snd (linkProblemToIdea p i e))))
                = c_links (counters (document e)))
       \<and> (\<not> (\<exists>l\<in>set (links (document e)). l_problem_id l = p \<and> l_idea_id l = i) \<longrightarrow>
            fst (linkProblemToIdea p i e)
            \<and> document (snd (linkProblemToIdea p i e)) = (document e)\<lparr>
                counters := (counters (document e))\<lparr>c_links :=
                  increment (c_links (counters (document e)))\<rparr>,
                links := links (document e) @
                  [\<lparr>l_id = increment (c_links (counters (document e))), l_problem_id = p,
                    l_idea_id = i\<rparr>]\<rparr>)
       \<and> (\<not> (\<exists>l\<in>set (links (document e)). l_problem_id l = p \<and> l_idea_id l = i)
            \<and> - (2 ^ 53) \<le> c_links (counters (document e))
            \<and> c_links (counters (document e)) < 2 ^ 53 \<longrightarrow>
            links (document (snd (linkProblemToIdea p i e))) = links (document e) @
                [\<lparr>l_id = c_links (counters (document e)) + 1, l_problem_id = p, l_idea_id = i\<rparr>]
            \<and> c_links (counters (document (snd (linkProblemToIdea p i e))))
                = c_links (counters (document e)) + 1)"
  using assms
  by (simp add: linkProblemToIdea_unfold document_saved document_get increment_exact)

theorem C8_linkProblemToIdea_witness:
  "window cascade_scenario
   \<and> (\<exists>l\<in>set (links (document cascade_scenario)). l_problem_id l = 1 \<and> l_idea_id l = 2)
   \<and> \<not> fst (linkProblemToIdea 1 2 cascade_scenario)
   \<and> document (snd (linkProblemToIdea 1 2 cascade_scenario)) = document cascade_scenario
   \<and> \<not> (\<exists>l\<in>set (links (document cascade_scenario)). l_problem_id l = 2 \<and> l_idea_id l = 1)
   \<and> - (2 ^ 53) \<le> c_links (counters (document cascade_scenario))
   \<and> c_links (counters (document cascade_scenario)) < 2 ^ 53
   \<and> fst (linkProblemToIdea 2 1 cascade_scenario)
   \<and> links (document (snd (linkProblemToIdea 2 1 cascade_scenario)))
      = links (document cascade_scenario) @ [\<lparr>l_id = 3, l_problem_id = 2, l_idea_id = 1\<rparr>]
   \<and> c_links (counters (document (snd (linkProblemToIdea 2 1 cascade_scenario)))) = 3"
  using C8_linkProblemToIdea [OF window_cascade_scenario, of 1 2]
    C8_linkProblemToIdea [OF window_cascade_scenario, of 2 1]
  by (simp add: document_cascade_scenario window_cascade_scenario increment_def)

section \<open>Ids that are not in the store\<close>

text \<open>
  Claim C9. For every store state and every id that no record of the collection carries:
  \<^verbatim>\<open>getProblemById\<close>, \<^verbatim>\<open>getIdeaById\<close> and \<^verbatim>\<open>getNoteById\<close> return null (no error is
  raised: the model has none to raise), and \<^verbatim>\<open>updateProblem\<close>, \<^verbatim>\<open>updateIdea\<close>,
  \<^verbatim>\<open>updateNote\<close>, \<^verbatim>\<open>deleteProblem\<close>, \<^verbatim>\<open>deleteIdea\<close> and \<^verbatim>\<open>deleteNote\<close> return false.
  None of them writes: the context afterwards is the one a plain read leaves, whose
  document is the document before, and which is the very same context once the key has
  been written.
\<close>

theorem C9_missing_id:
  "((\<forall>p\<in>set (problems (document e)). p_id p \<noteq> k) \<longrightarrow>
      getProblemById k e = (None, snd (getStorageData e))
      \<and> updateProblem k t d c s f st tg now e = (False, snd (getStorageData e))
      \<and> deleteProblem k e = (False, snd (getStorageData e)))
   \<and> ((\<forall>i\<in>set (ideas (document e)). i_id i \<noteq> k) \<longrightarrow>
      getIdeaById k e = (None, snd (getStorageData e))
      \<and> updateIdea k t' p' u' v' d' a' r' st' sc' tg' now' e = (False, snd (getStorageData e))
      \<and> deleteIdea k e = (False, snd (getStorageData e)))
   \<and> ((\<forall>n\<in>set (notes (document e)). n_id n \<noteq> k) \<longrightarrow>
      getNoteById k e = (None, snd (getStorageData e))
      \<and> updateNote k ty'' c'' l'' p'' i'' e = (False, snd (getStorageData e))
      \<and> deleteNote k e = (False, snd (getStorageData e)))
   \<and> document (snd (getStorageData e)) = document e
   \<and> (localStorage e \<noteq> None \<longrightarrow> snd (getStorageData e) = e)"
proof -
  have 1: "(\<forall>p\<in>set (problems (document e)). p_id p \<noteq> k) \<longrightarrow>
      getProblemById k e = (None, snd (getStorageData e))
      \<and> updateProblem k t d c s f st tg now e = (False, snd (getStorageData e))
      \<and> deleteProblem k e = (False, snd (getStorageData e))"
    by (simp add: getProblemById_unfold updateProblem_unfold deleteProblem_unfold
        find_None findIndex_None [THEN iffD2])
  have 2: "(\<forall>i\<in>set (ideas (document e)). i_id i \<noteq> k) \<longrightarrow>
      getIdeaById k e = (None, snd (getStorageData e))
      \<and> updateIdea k t' p' u' v' d' a' r' st' sc' tg' now' e = (False, snd (getStorageData e))
      \<and> deleteIdea k e = (False, snd (getStorageData e))"
    by (simp add: getIdeaById_unfold updateIdea_unfold deleteIdea_unfold
        find_None findIndex_None [THEN iffD2])
  have 3: "(\<forall>n\<in>set (notes (document e)). n_id n \<noteq> k) \<longrightarrow>
      getNoteById k e = (None, snd (getStorageData e))
      \<and> updateNote k ty'' c'' l'' p'' i'' e = (False, snd (getStorageData e))
      \<and> deleteNote k e = (False, snd (getStorageData e))"
    by (simp add: getNoteById_unfold updateNote_unfold deleteNote_unfold
        find_None findIndex_None [THEN iffD2])
  have 4: "localStorage e \<noteq> None \<longrightarrow> snd (getStorageData e) = e"
    by (auto simp: getStorageData_def)
  show ?thesis using 1 2 3 4 document_get [of e] by blast
qed

theorem C9_missing_id_witness:
  "9 \<notin> set (map p_id (problems (document cascade_scenario)))
   \<and> 9 \<notin> set (map i_id (ideas (document cascade_scenario)))
   \<and> 9 \<notin> set (map n_id (notes (document cascade_scenario)))
   \<and> localStorage cascade_scenario \<noteq> None
   \<and> getProblemById 9 cascade_scenario = (None, cascade_scenario)
   \<and> updateProblem 9 ''t'' [] [] 1 Rare Solved [] 5000 cascade_scenario = (False, cascade_scenario)
   \<and> deleteProblem 9 cascade_scenario = (False, cascade_scenario)
   \<and> getIdeaById 9 cascade_scenario = (None, cascade_scenario)
   \<and> updateIdea 9 ''t'' [] [] [] [] [] [] Parked None [] 5000 cascade_scenario
        = (False, cascade_scenario)
   \<and> deleteIdea 9 cascade_scenario = (False, cascade_scenario)
   \<and> getNoteById 9 cascade_scenario = (None, cascade_scenario)
   \<and> updateNote 9 Tech ''c'' [] None None cascade_scenario = (False, cascade_scenario)
   \<and> deleteNote 9 cascade_scenario = (False, cascade_scenario)"
proof -
  have s: "localStorage cascade_scenario \<noteq> None"
    using document_cascade_scenario window_cascade_scenario
    by (auto simp: document_def getStorageData_def initial_def split: option.splits)
  show ?thesis
    using s C9_missing_id [of cascade_scenario 9 "''t''" "[]" "[]" 1 Rare Solved "[]" 5000
        "''t''" "[]" "[]" "[]" "[]" "[]" "[]" Parked None "[]" 5000 Tech "''c''" "[]" None None]
    by (simp add: document_cascade_scenario)
qed

section \<open>Linked records are listed once\<close>

text \<open>
  Claim C10. For every store state and every \<open>problem_id\<close>, \<^verbatim>\<open>getIdeasForProblem\<close>
  returns a selection of the ideas collection in its order (each stored idea at most
  once, however many links carry the same pair): no record occurs more often in the
  result than in the collection, and ideas with distinct ids give a result with
  distinct ids. The same holds for \<^verbatim>\<open>getProblemsForIdea\<close> and the problems collection.
\<close>

theorem C10_linked_records_once:
  "subseq (fst (getIdeasForProblem p e)) (ideas (document e))
   \<and> (distinct (map i_id (ideas (document e)))
        \<longrightarrow> distinct (map i_id (fst (getIdeasForProblem p e))))
   \<and> count_list (fst (getIdeasForProblem p e)) x \<le> count_list (ideas (document e)) x
   \<and> subseq (fst (getProblemsForIdea i e)) (problems (document e))
   \<and> (distinct (map p_id (problems (document e)))
        \<longrightarrow> distinct (map p_id (fst (getProblemsForIdea i e))))
   \<and> count_list (fst (getProblemsForIdea i e)) y \<le> count_list (problems (document e)) y"
proof -
  have c: "count_list (filter P xs) z \<le> count_list xs z" for P and xs :: "'a list" and z
    by (induction xs) auto
  show ?thesis
    by (simp add: getIdeasForProblem_unfold getProblemsForIdea_unfold distinct_map_filter c)
qed

theorem C10_linked_records_once_witness:
  "distinct (map i_id (ideas (document duplicate_links_scenario)))
   \<and> distinct (map p_id (problems (document duplicate_links_scenario)))
   \<and> map link_pair (links (document duplicate_links_scenario)) = [(1, 1), (1, 1)]
   \<and> distinct (map i_id (fst (getIdeasForProblem 1 duplicate_links_scenario)))
   \<and> map i_id (fst (getIdeasForProblem 1 duplicate_links_scenario)) = [1]
   \<and> distinct (map p_id (fst (getProblemsForIdea 1 duplicate_links_scenario)))
   \<and> map p_id (fst (getProblemsForIdea 1 duplicate_links_scenario)) = [1]"
proof -
  have h: "distinct (map i_id (ideas (document duplicate_links_scenario)))
      \<and> distinct (map p_id (problems (document duplicate_links_scenario)))"
    by (simp add: document_duplicate_links_scenario)
  have r: "map i_id (fst (getIdeasForProblem 1 duplicate_links_scenario)) = [1]
      \<and> map p_id (fst (getProblemsForIdea 1 duplicate_links_scenario)) = [1]
      \<and> map link_pair (links (document duplicate_links_scenario)) = [(1, 1), (1, 1)]"
    by (simp add: getIdeasForProblem_unfold getProblemsForIdea_unfold
        document_duplicate_links_scenario link_pair_def)
  from C10_linked_records_once [of 1 duplicate_links_scenario undefined 1 undefined] h
  have "distinct (map i_id (fst (getIdeasForProblem 1 duplicate_links_scenario)))
      \<and> distinct (map p_id (fst (getProblemsForIdea 1 duplicate_links_scenario)))"
    by simp
  with h r show ?thesis by simp
qed

end
